theory Spec2Isabelle
  imports Complex_Main
begin

section \<open>The quiz application of app.py\<close>

text \<open>
  A shallow embedding of the request handlers of \<^verbatim>\<open>src/app.py\<close>. The Flask session is a
  dictionary; every key the handlers use is a field that is \<open>None\<close> while the key is
  absent. A handler takes the session and returns its outcome together with the session
  as the handler left it: an outcome is a Python exception (\<open>Inl\<close>) or a response
  (\<open>Inr\<close>). Times and scores are Python floats in the source and exact rationals here.
\<close>

subsection \<open>Data model\<close>

datatype error = KeyError | IndexError | TypeError | ValueError | ZeroDivisionError | AttributeError

text \<open>A question object of questions.json, with the three keys the handlers read.\<close>

record question_obj =
  question :: string
  options :: "(string \<times> string) list"
  answer :: string

text \<open>The dictionary appended to \<^verbatim>\<open>session['answers']\<close> by \<^verbatim>\<open>submit_answer\<close>.\<close>

record answer_record =
  ar_question :: string
  user_answer :: "string option"
  correct_answer :: string
  is_correct :: bool
  ar_options :: "(string \<times> string) list"

text \<open>
  The session. \<open>category\<close> holds the value of \<^verbatim>\<open>request.form.get('category')\<close>, which is
  Python's \<open>None\<close> when the form has no such field, hence the nested option.
  \<open>flashes\<close> collects the \<^verbatim>\<open>flash(message, category)\<close> calls, \<open>user_id\<close> is what
  \<^verbatim>\<open>login_user\<close> records.
\<close>

record session =
  category :: "string option option"
  total_questions :: "int option"
  questions :: "question_obj list option"
  current_index :: "int option"
  answers :: "answer_record list option"
  start_time :: "rat option"
  flashes :: "(string \<times> string) list"
  user_id :: "nat option"

definition empty_session :: session where
  "empty_session = \<lparr>category = None, total_questions = None, questions = None,
     current_index = None, answers = None, start_time = None, flashes = [], user_id = None\<rparr>"

text \<open>The keywords given to \<^verbatim>\<open>render_template('results.html', ...)\<close>.\<close>

record results_page =
  rp_category :: string
  rp_total_questions :: int
  rp_correct :: int
  rp_score :: rat
  rp_time_taken :: string
  rp_answers :: "answer_record list"

text \<open>The login form as submitted: \<open>lf_valid\<close> is \<^verbatim>\<open>form.validate_on_submit()\<close>.\<close>

record login_form =
  lf_valid :: bool
  lf_username :: string
  lf_password :: string

record user =
  u_id :: nat
  u_email :: string
  u_username :: string
  u_password :: string

datatype response =
    Redirect string
  | Redirect_category "string option"
  | Quiz_page question_obj int int
  | Results_page results_page
  | Home_page login_form string

type_synonym 'a outcome = "(error + 'a) \<times> session"

subsection \<open>Python primitives\<close>

text \<open>\<^verbatim>\<open>xs[i]\<close>: a negative index counts from the end, an index out of range raises.\<close>

definition py_index :: "'a list \<Rightarrow> int \<Rightarrow> error + 'a" where
  "py_index xs i =
     (if 0 \<le> i \<and> i < int (length xs) then Inr (xs ! nat i)
      else if i < 0 \<and> - int (length xs) \<le> i then Inr (xs ! nat (int (length xs) + i))
      else Inl IndexError)"

text \<open>\<^verbatim>\<open>xs[:n]\<close>: a negative bound counts from the end.\<close>

definition py_slice_to :: "'a list \<Rightarrow> int \<Rightarrow> 'a list" where
  "py_slice_to xs n =
     (if n < 0 then take (nat (int (length xs) + n)) xs else take (nat n) xs)"

text \<open>
  \<^verbatim>\<open>int(v)\<close> on a form value: \<open>None\<close> raises TypeError, a string that is no integer
  literal raises ValueError. The reading of literals is the parameter \<open>parse\<close>.
\<close>

definition py_int :: "(string \<Rightarrow> int option) \<Rightarrow> string option \<Rightarrow> error + int" where
  "py_int parse v =
     (case v of None \<Rightarrow> Inl TypeError
      | Some s \<Rightarrow> (case parse s of None \<Rightarrow> Inl ValueError | Some n \<Rightarrow> Inr n))"

text \<open>\<^verbatim>\<open>round(x, 2)\<close> on an exact value: to the nearest hundredth, ties to even.\<close>

definition round_half_even :: "rat \<Rightarrow> int" where
  "round_half_even y =
     (let f = \<lfloor>y\<rfloor>; d = y - of_int f
      in if d < 1 / 2 then f else if 1 / 2 < d then f + 1
         else if even f then f else f + 1)"

definition py_round2 :: "rat \<Rightarrow> rat" where
  "py_round2 x = of_int (round_half_even (x * 100)) / 100"

text \<open>\<^verbatim>\<open>x // 60\<close> and \<^verbatim>\<open>x % 60\<close>: floor division and the remainder with the sign of 60.\<close>

definition py_floordiv :: "rat \<Rightarrow> rat \<Rightarrow> rat" where
  "py_floordiv x m = of_int \<lfloor>x / m\<rfloor>"

definition py_mod :: "rat \<Rightarrow> rat \<Rightarrow> rat" where
  "py_mod x m = x - m * of_int \<lfloor>x / m\<rfloor>"

text \<open>\<^verbatim>\<open>int(x)\<close> on a float truncates towards zero.\<close>

definition py_trunc :: "rat \<Rightarrow> int" where
  "py_trunc x = (if x < 0 then \<lceil>x\<rceil> else \<lfloor>x\<rfloor>)"

text \<open>\<^verbatim>\<open>str(n)\<close> on an integer, as the f-string prints it.\<close>

definition digit_char :: "nat \<Rightarrow> char" where
  "digit_char d = char_of (48 + d)"

fun str_nat :: "nat \<Rightarrow> string" where
  "str_nat n = (if n < 10 then [digit_char n] else str_nat (n div 10) @ [digit_char (n mod 10)])"

declare str_nat.simps [simp del]

definition str_int :: "int \<Rightarrow> string" where
  "str_int i = (if i < 0 then CHR ''-'' # str_nat (nat (- i)) else str_nat (nat i))"

text \<open>\<^verbatim>\<open>s.strip()\<close> and \<^verbatim>\<open>s.capitalize()\<close> on ASCII strings.\<close>

definition is_space :: "char \<Rightarrow> bool" where
  "is_space c = (let k = (of_char c :: nat) in (9 \<le> k \<and> k \<le> 13) \<or> (28 \<le> k \<and> k \<le> 32))"

definition py_strip :: "string \<Rightarrow> string" where
  "py_strip s = rev (dropWhile is_space (rev (dropWhile is_space s)))"

definition py_upper :: "char \<Rightarrow> char" where
  "py_upper c = (let k = (of_char c :: nat) in if 97 \<le> k \<and> k \<le> 122 then char_of (k - 32) else c)"

definition py_lower :: "char \<Rightarrow> char" where
  "py_lower c = (let k = (of_char c :: nat) in if 65 \<le> k \<and> k \<le> 90 then char_of (k + 32) else c)"

definition py_capitalize :: "string \<Rightarrow> string" where
  "py_capitalize s = (case s of [] \<Rightarrow> [] | c # r \<Rightarrow> py_upper c # map py_lower r)"

text \<open>\<^verbatim>\<open>flash(message, category)\<close> appends to the flashed messages of the session.\<close>

definition flash :: "string \<Rightarrow> string \<Rightarrow> session \<Rightarrow> session" where
  "flash message cat s = s\<lparr>flashes := flashes s @ [(cat, message)]\<rparr>"

text \<open>
  \<^verbatim>\<open>@login_required\<close>: a request whose user is not authenticated is answered by a
  redirect to \<^verbatim>\<open>login_manager.login_view\<close> and the handler does not run.
\<close>

definition login_required :: "bool \<Rightarrow> (session \<Rightarrow> response outcome) \<Rightarrow> session \<Rightarrow> response outcome" where
  "login_required authenticated handler s =
     (if authenticated then handler s else (Inr (Redirect ''login''), s))"

subsection \<open>The question store\<close>

text \<open>
  What \<^verbatim>\<open>open("questions.json")\<close> and \<^verbatim>\<open>json.load\<close> give: the file is missing or is not
  JSON (\<open>Unreadable\<close>), or it is a JSON object whose key \<^verbatim>\<open>"categories"\<close> is absent
  (\<open>Json None\<close>) or maps category names to question lists. The dictionary of categories
  is an association list with distinct keys.
\<close>

datatype file_contents =
    Unreadable
  | Json "(string \<times> question_obj list) list option"

text \<open>The three kinds of value \<^verbatim>\<open>load_questions\<close> returns.\<close>

datatype loaded =
    L_none
  | L_categories "(string \<times> question_obj list) list"
  | L_questions "question_obj list"

text \<open>\<^verbatim>\<open>not v\<close> and \<^verbatim>\<open>len(v)\<close> on a loaded value.\<close>

fun not_loaded :: "loaded \<Rightarrow> bool" where
  "not_loaded L_none = True"
| "not_loaded (L_categories cs) = (cs = [])"
| "not_loaded (L_questions qs) = (qs = [])"

fun len_loaded :: "loaded \<Rightarrow> error + int" where
  "len_loaded L_none = Inl TypeError"
| "len_loaded (L_categories cs) = Inr (int (length cs))"
| "len_loaded (L_questions qs) = Inr (int (length qs))"

text \<open>
  \<^verbatim>\<open>load_questions\<close>: only FileNotFoundError and JSONDecodeError are caught, so a file
  without the key \<^verbatim>\<open>"categories"\<close> raises KeyError. \<^verbatim>\<open>not category\<close> holds for \<open>None\<close>
  and for the empty string.
\<close>

definition load_questions :: "file_contents \<Rightarrow> string option \<Rightarrow> error + loaded" where
  "load_questions file cat =
     (case file of
        Unreadable \<Rightarrow> Inr L_none
      | Json None \<Rightarrow> Inl KeyError
      | Json (Some cats) \<Rightarrow>
          (case cat of
             None \<Rightarrow> Inr (L_categories cats)
           | Some c \<Rightarrow>
               if c = [] then Inr (L_categories cats)
               else Inr (L_questions (case map_of cats c of None \<Rightarrow> [] | Some qs \<Rightarrow> qs))))"

text \<open>
  \<^verbatim>\<open>get_questions\<close>: the count is clamped to the length, then the slice is taken. A
  dictionary has a length and cannot be sliced.
\<close>

definition get_questions :: "loaded \<Rightarrow> int \<Rightarrow> error + question_obj list" where
  "get_questions qs num_questions =
     (case len_loaded qs of
        Inl e \<Rightarrow> Inl e
      | Inr n \<Rightarrow>
          (let num = (if num_questions > n then n else num_questions)
           in case qs of
                L_questions xs \<Rightarrow> Inr (py_slice_to xs num)
              | _ \<Rightarrow> Inl TypeError))"

subsection \<open>Request handlers\<close>

text \<open>
  \<^verbatim>\<open>start_quiz\<close>, the body under \<^verbatim>\<open>@login_required\<close>. \<open>form_category\<close> and \<open>form_total\<close>
  are the two form fields, \<open>now\<close> is \<^verbatim>\<open>time.time()\<close>. The session keys are written one
  after the other, so an exception in \<^verbatim>\<open>get_questions\<close> leaves the first two written.
\<close>

definition start_quiz ::
  "(string \<Rightarrow> int option) \<Rightarrow> file_contents \<Rightarrow> rat \<Rightarrow> string option \<Rightarrow> string option
     \<Rightarrow> session \<Rightarrow> response outcome" where
  "start_quiz parse file now form_category form_total s =
     (case py_int parse form_total of
        Inl e \<Rightarrow> (Inl e, s)
      | Inr requested \<Rightarrow>
          (case load_questions file form_category of
             Inl e \<Rightarrow> (Inl e, s)
           | Inr qs \<Rightarrow>
               if not_loaded qs \<or> requested \<le> 0
               then (Inr (Redirect_category form_category),
                     flash ''Invalid quiz parameters!'' ''error'' s)
               else
                 (let s1 = s\<lparr>category := Some form_category\<rparr>
                  in case len_loaded qs of
                       Inl e \<Rightarrow> (Inl e, s1)
                     | Inr n \<Rightarrow>
                         (let s2 = s1\<lparr>total_questions := Some (min requested n)\<rparr>
                          in case get_questions qs (min requested n) of
                               Inl e \<Rightarrow> (Inl e, s2)
                             | Inr sel \<Rightarrow>
                                 (Inr (Redirect ''show_question''),
                                  s2\<lparr>questions := Some sel, current_index := Some 0,
                                     answers := Some [], start_time := Some now\<rparr>)))))"

text \<open>\<^verbatim>\<open>show_question\<close>.\<close>

definition show_question :: "session \<Rightarrow> response outcome" where
  "show_question s =
     (case current_index s of
        None \<Rightarrow> (Inr (Redirect ''index''), s)
      | Some ci \<Rightarrow>
          (case total_questions s of
             None \<Rightarrow> (Inl KeyError, s)
           | Some tq \<Rightarrow>
               if ci \<ge> tq then (Inr (Redirect ''show_results''), s)
               else
                 (case questions s of
                    None \<Rightarrow> (Inl KeyError, s)
                  | Some qs \<Rightarrow>
                      (case py_index qs ci of
                         Inl e \<Rightarrow> (Inl e, s)
                       | Inr q \<Rightarrow> (Inr (Quiz_page q (ci + 1) tq), s)))))"

text \<open>\<^verbatim>\<open>submit_answer\<close>; \<open>form_answer\<close> is \<^verbatim>\<open>request.form.get('answer')\<close>.\<close>

definition valid_labels :: "string option list" where
  "valid_labels = [Some ''A'', Some ''B'', Some ''C'', Some ''D'']"

definition submit_answer :: "string option \<Rightarrow> session \<Rightarrow> response outcome" where
  "submit_answer form_answer s =
     (case current_index s of
        None \<Rightarrow> (Inl KeyError, s)
      | Some ci \<Rightarrow>
          (case questions s of
             None \<Rightarrow> (Inl KeyError, s)
           | Some qs \<Rightarrow>
               (case py_index qs ci of
                  Inl e \<Rightarrow> (Inl e, s)
                | Inr q \<Rightarrow>
                    (let correct =
                           (if form_answer \<notin> set valid_labels then False
                            else form_answer = Some (answer q))
                     in case answers s of
                          None \<Rightarrow> (Inl KeyError, s)
                        | Some ans \<Rightarrow>
                            (Inr (Redirect ''show_question''),
                             s\<lparr>answers := Some (ans @
                                  [\<lparr>ar_question = question q, user_answer = form_answer,
                                    correct_answer = answer q, is_correct = correct,
                                    ar_options = options q\<rparr>]),
                               current_index := Some (ci + 1)\<rparr>)))))"

text \<open>\<^verbatim>\<open>show_results\<close>, the body under \<^verbatim>\<open>@login_required\<close>; \<open>now\<close> is \<^verbatim>\<open>time.time()\<close>.\<close>

definition format_time :: "rat \<Rightarrow> string" where
  "format_time time_taken_seconds =
     (let minutes = py_trunc (py_floordiv time_taken_seconds 60);
          seconds = py_trunc (py_mod time_taken_seconds 60)
      in str_int minutes @ ''m '' @ str_int seconds @ ''s'')"

definition show_results :: "rat \<Rightarrow> session \<Rightarrow> response outcome" where
  "show_results now s =
     (case answers s of
        None \<Rightarrow> (Inr (Redirect ''index''), s)
      | Some ans \<Rightarrow>
          (case total_questions s of
             None \<Rightarrow> (Inl KeyError, s)
           | Some tq \<Rightarrow>
               (let correct = int (length (filter is_correct ans))
                in if tq = 0 then (Inl ZeroDivisionError, s)
                   else
                     (let score = py_round2 (of_int correct / of_int tq * 100)
                      in case start_time s of
                           None \<Rightarrow> (Inl KeyError, s)
                         | Some st \<Rightarrow>
                             (let time_taken_seconds = py_round2 (now - st)
                              in case category s of
                                   None \<Rightarrow> (Inl KeyError, s)
                                 | Some None \<Rightarrow> (Inl AttributeError, s)
                                 | Some (Some c) \<Rightarrow>
                                     (Inr (Results_page
                                        \<lparr>rp_category = py_capitalize c,
                                         rp_total_questions = tq, rp_correct = correct,
                                         rp_score = score,
                                         rp_time_taken = format_time time_taken_seconds,
                                         rp_answers = ans\<rparr>), s))))))"

text \<open>
  \<^verbatim>\<open>login\<close>; \<open>check_password_hash\<close> is werkzeug's function, \<open>users\<close> the rows of the user
  table in the order \<^verbatim>\<open>first()\<close> reads them.
\<close>

definition login ::
  "(string \<Rightarrow> string \<Rightarrow> bool) \<Rightarrow> user list \<Rightarrow> login_form \<Rightarrow> session \<Rightarrow> response outcome" where
  "login check_password_hash users form s =
     (if lf_valid form then
        (let email = py_strip (lf_username form);
             password = py_strip (lf_password form)
         in case find (\<lambda>u. u_email u = email) users of
              None \<Rightarrow> (Inr (Home_page form ''Invalid email or password''), s)
            | Some u \<Rightarrow>
                if check_password_hash (u_password u) password
                then (Inr (Redirect ''index''),
                      flash ''Login successful!'' ''success'' (s\<lparr>user_id := Some (u_id u)\<rparr>))
                else (Inr (Home_page form ''Invalid email or password''), s))
      else (Inr (Home_page form []), s))"

subsection \<open>Routes\<close>

text \<open>
  The routes with their decorators; \<open>authenticated\<close> is \<^verbatim>\<open>current_user.is_authenticated\<close>.
  On \<^verbatim>\<open>/quiz\<close> and \<^verbatim>\<open>/submit\<close> the decorator is commented out in the source.
\<close>

definition route_start ::
  "bool \<Rightarrow> (string \<Rightarrow> int option) \<Rightarrow> file_contents \<Rightarrow> rat \<Rightarrow> string option \<Rightarrow> string option
     \<Rightarrow> session \<Rightarrow> response outcome" where
  "route_start authenticated parse file now form_category form_total =
     login_required authenticated (start_quiz parse file now form_category form_total)"

definition route_quiz :: "bool \<Rightarrow> session \<Rightarrow> response outcome" where
  "route_quiz authenticated = show_question"

definition route_submit :: "bool \<Rightarrow> string option \<Rightarrow> session \<Rightarrow> response outcome" where
  "route_submit authenticated form_answer = submit_answer form_answer"

definition route_results :: "bool \<Rightarrow> rat \<Rightarrow> session \<Rightarrow> response outcome" where
  "route_results authenticated now = login_required authenticated (show_results now)"

subsection \<open>Notions used in the properties\<close>





text \<open>Sample data: two questions, a store with one category, a reader of integer literals.\<close>

definition q1 :: question_obj where
  "q1 = \<lparr>question = ''2 + 2?'',
         options = [(''A'', ''3''), (''B'', ''4''), (''C'', ''5''), (''D'', ''6'')],
         answer = ''B''\<rparr>"

definition q2 :: question_obj where
  "q2 = \<lparr>question = ''3 * 3?'',
         options = [(''A'', ''9''), (''B'', ''6''), (''C'', ''3''), (''D'', ''1'')],
         answer = ''A''\<rparr>"

definition sample_file :: file_contents where
  "sample_file = Json (Some [(''math'', [q1, q2]), (''empty'', [])])"

definition sample_parse :: "string \<Rightarrow> int option" where
  "sample_parse t =
     (if t = ''5'' then Some 5 else if t = ''1'' then Some 1
      else if t = ''0'' then Some 0 else if t = ''-3'' then Some (- 3) else None)"



text \<open>Sample sessions: a quiz just started, the same quiz completed, a quiz of four answers.\<close>

definition sample_started :: session where
  "sample_started =
     empty_session\<lparr>category := Some (Some ''math''), total_questions := Some 2,
       questions := Some [q1, q2], current_index := Some 0, answers := Some [],
       start_time := Some 1000\<rparr>"

definition sample_answer :: "bool \<Rightarrow> answer_record" where
  "sample_answer ok =
     \<lparr>ar_question = ''2 + 2?'', user_answer = Some (if ok then ''B'' else ''C''),
      correct_answer = ''B'', is_correct = ok,
      ar_options = [(''A'', ''3''), (''B'', ''4''), (''C'', ''5''), (''D'', ''6'')]\<rparr>"

definition sample_completed :: session where
  "sample_completed =
     sample_started\<lparr>current_index := Some 2,
       answers := Some [sample_answer True, sample_answer False]\<rparr>"


text \<open>A sample user table, a stand-in for the hash check, and a submitted login form.\<close>

definition sample_users :: "user list" where
  "sample_users =
     [\<lparr>u_id = 1, u_email = ''ann@example.org'', u_username = ''ann'',
       u_password = ''hash:secret''\<rparr>]"

definition sample_check :: "string \<Rightarrow> string \<Rightarrow> bool" where
  "sample_check pwhash password = (pwhash = ''hash:'' @ password)"

definition sample_form :: "string \<Rightarrow> string \<Rightarrow> login_form" where
  "sample_form email password =
     \<lparr>lf_valid = True, lf_username = email, lf_password = password\<rparr>"

section \<open>Properties\<close>

subsection \<open>Starting a quiz\<close>

lemma py_slice_to_all: "int (length xs) \<le> n \<Longrightarrow> py_slice_to xs n = xs"
  by (simp add: py_slice_to_def)

text \<open>
  C1. When the category's list \<open>qs\<close> has \<open>k\<close> questions, \<open>k > 0\<close>, and the requested count
  \<open>n\<close> exceeds \<open>k\<close>, \<^verbatim>\<open>start_quiz\<close> succeeds, stores \<open>total_questions = k\<close> and stores as
  the questions the first \<open>min n k\<close> questions of \<open>qs\<close> in the order of the file; the index
  is 0, the answers are empty and the start time is recorded. (With \<open>k = 0\<close> the start is
  rejected, see C2.)
\<close>

theorem start_quiz_clamps:
  assumes "py_int parse form_total = Inr n"
    and "load_questions file form_category = Inr (L_questions qs)"
    and "qs \<noteq> []"
    and "n > int (length qs)"
  shows "start_quiz parse file now form_category form_total s =
     (Inr (Redirect ''show_question''),
      s\<lparr>category := Some form_category,
        total_questions := Some (int (length qs)),
        questions := Some (take (nat (min n (int (length qs)))) qs),
        current_index := Some 0, answers := Some [], start_time := Some now\<rparr>)"
  using assms by (simp add: start_quiz_def get_questions_def py_slice_to_def min_def)

theorem start_quiz_clamps_witness:
  "py_int sample_parse (Some ''5'') = Inr 5 \<and>
   load_questions sample_file (Some ''math'') = Inr (L_questions [q1, q2]) \<and>
   [q1, q2] \<noteq> [] \<and> (5::int) > int (length [q1, q2]) \<and>
   start_quiz sample_parse sample_file 1000 (Some ''math'') (Some ''5'') empty_session =
     (Inr (Redirect ''show_question''),
      empty_session\<lparr>category := Some (Some ''math''), total_questions := Some 2,
        questions := Some [q1, q2], current_index := Some 0, answers := Some [],
        start_time := Some 1000\<rparr>)"
proof -
  have p: "py_int sample_parse (Some ''5'') = Inr 5"
    by (simp add: py_int_def sample_parse_def)
  have l: "load_questions sample_file (Some ''math'') = Inr (L_questions [q1, q2])"
    by (simp add: load_questions_def sample_file_def)
  have k: "(5::int) > int (length [q1, q2])" by simp
  show ?thesis
    using start_quiz_clamps [OF p l _ k, of 1000 empty_session] p l by simp
qed




subsection \<open>The session invariant\<close>







subsection \<open>Recording an answer\<close>

text \<open>
  C4. When the session holds a current question \<open>q\<close> and an answer list, \<^verbatim>\<open>submit_answer\<close>
  does not raise and appends exactly one record, whatever the submitted value \<open>ua\<close> is
  (also the absent field, \<open>None\<close>); the record's \<open>is_correct\<close> is true exactly when \<open>ua\<close> is
  one of the labels A, B, C, D and equals the stored answer of \<open>q\<close>, so it is false for
  every value outside the labels.
\<close>

theorem submit_answer_records:
  assumes "current_index s = Some ci"
    and "questions s = Some qs"
    and "py_index qs ci = Inr q"
    and "answers s = Some ans"
  shows "submit_answer ua s =
     (Inr (Redirect ''show_question''),
      s\<lparr>answers := Some (ans @
           [\<lparr>ar_question = question q, user_answer = ua, correct_answer = answer q,
             is_correct = (ua \<in> {Some ''A'', Some ''B'', Some ''C'', Some ''D''} \<and>
                           ua = Some (answer q)),
             ar_options = options q\<rparr>]),
        current_index := Some (ci + 1)\<rparr>)"
  using assms by (simp add: submit_answer_def valid_labels_def)

theorem submit_answer_records_witness:
  "current_index sample_started = Some 0 \<and> questions sample_started = Some [q1, q2] \<and>
   py_index [q1, q2] 0 = Inr q1 \<and> answers sample_started = Some [] \<and>
   submit_answer (Some ''E'') sample_started =
     (Inr (Redirect ''show_question''),
      sample_started\<lparr>answers := Some
           [\<lparr>ar_question = question q1, user_answer = Some ''E'', correct_answer = answer q1,
             is_correct = False, ar_options = options q1\<rparr>],
        current_index := Some 1\<rparr>) \<and>
   submit_answer (Some ''B'') sample_started =
     (Inr (Redirect ''show_question''),
      sample_started\<lparr>answers := Some
           [\<lparr>ar_question = question q1, user_answer = Some ''B'', correct_answer = answer q1,
             is_correct = True, ar_options = options q1\<rparr>],
        current_index := Some 1\<rparr>)"
proof -
  have c: "current_index sample_started = Some 0" by (simp add: sample_started_def)
  have q: "questions sample_started = Some [q1, q2]" by (simp add: sample_started_def)
  have i: "py_index [q1, q2] 0 = Inr q1" by (simp add: py_index_def)
  have a: "answers sample_started = Some []" by (simp add: sample_started_def)
  have b: "answer q1 = ''B''" by (simp add: q1_def)
  show ?thesis
    using submit_answer_records [OF c q i a, of "Some ''E''"]
      submit_answer_records [OF c q i a, of "Some ''B''"] c q i a b
    by simp
qed

subsection \<open>Results\<close>









text \<open>Rounding comes first and the conversion truncates: 59.99 s and 59.996 s.\<close>

lemma format_time_truncates:
  "format_time (py_round2 (5999 / 100)) = ''0m 59s'' \<and>
   format_time (py_round2 (59996 / 1000)) = ''1m 0s''"
  by code_simp

subsection \<open>Login\<close>

text \<open>
  C7. A login that fails because no user has the given email and a login that fails
  because the user exists and the password check fails both render the home page with the
  one message ``Invalid email or password'' and leave the session as it was; between the
  two runs the responses differ in nothing but the echoed form.
\<close>

theorem login_failure_same_message:
  assumes "lf_valid form_a"
    and "find (\<lambda>u. u_email u = py_strip (lf_username form_a)) users_a = None"
    and "lf_valid form_b"
    and "find (\<lambda>u. u_email u = py_strip (lf_username form_b)) users_b = Some u"
    and "\<not> check_b (u_password u) (py_strip (lf_password form_b))"
  shows "login check_a users_a form_a s_a =
           (Inr (Home_page form_a ''Invalid email or password''), s_a) \<and>
         login check_b users_b form_b s_b =
           (Inr (Home_page form_b ''Invalid email or password''), s_b)"
  using assms by (simp add: login_def)

theorem login_failure_same_message_witness:
  "lf_valid (sample_form ''bob@example.org'' ''secret'') \<and>
   find (\<lambda>u. u_email u = py_strip (lf_username (sample_form ''bob@example.org'' ''secret'')))
     sample_users = None \<and>
   lf_valid (sample_form ''ann@example.org'' ''guess'') \<and>
   find (\<lambda>u. u_email u = py_strip (lf_username (sample_form ''ann@example.org'' ''guess'')))
     sample_users = Some (hd sample_users) \<and>
   \<not> sample_check (u_password (hd sample_users))
       (py_strip (lf_password (sample_form ''ann@example.org'' ''guess''))) \<and>
   login sample_check sample_users (sample_form ''bob@example.org'' ''secret'') empty_session =
     (Inr (Home_page (sample_form ''bob@example.org'' ''secret'') ''Invalid email or password''),
      empty_session) \<and>
   login sample_check sample_users (sample_form ''ann@example.org'' ''guess'') empty_session =
     (Inr (Home_page (sample_form ''ann@example.org'' ''guess'') ''Invalid email or password''),
      empty_session)"
proof -
  have v1: "lf_valid (sample_form ''bob@example.org'' ''secret'')"
    by (simp add: sample_form_def)
  have f1: "find (\<lambda>u. u_email u = py_strip (lf_username (sample_form ''bob@example.org''
      ''secret''))) sample_users = None"
    by (simp add: sample_form_def sample_users_def py_strip_def is_space_def)
  have v2: "lf_valid (sample_form ''ann@example.org'' ''guess'')"
    by (simp add: sample_form_def)
  have f2: "find (\<lambda>u. u_email u = py_strip (lf_username (sample_form ''ann@example.org''
      ''guess''))) sample_users = Some (hd sample_users)"
    by (simp add: sample_form_def sample_users_def py_strip_def is_space_def)
  have n2: "\<not> sample_check (u_password (hd sample_users))
       (py_strip (lf_password (sample_form ''ann@example.org'' ''guess'')))"
    by (simp add: sample_form_def sample_users_def sample_check_def py_strip_def is_space_def)
  show ?thesis
    using login_failure_same_message [where form_a = "sample_form ''bob@example.org'' ''secret''"
        and form_b = "sample_form ''ann@example.org'' ''guess''" and users_a = sample_users
        and users_b = sample_users and u = "hd sample_users" and check_a = sample_check
        and check_b = sample_check and s_a = empty_session and s_b = empty_session,
        OF v1 f1 v2 f2 n2] v1 f1 v2 f2 n2
    by simp
qed

subsection \<open>Guards of the quiz routes\<close>

text \<open>
  C8. In a session without quiz state, \<^verbatim>\<open>GET /quiz\<close> and \<^verbatim>\<open>GET /results\<close> redirect to the
  category list, and \<^verbatim>\<open>POST /submit\<close> raises KeyError: \<^verbatim>\<open>submit_answer\<close> reads
  \<^verbatim>\<open>session['current_index']\<close> without the test that its two siblings make.
\<close>

theorem submit_without_quiz_raises:
  "route_quiz True empty_session = (Inr (Redirect ''index''), empty_session) \<and>
   route_results True 1000 empty_session = (Inr (Redirect ''index''), empty_session) \<and>
   route_submit True (Some ''A'') empty_session = (Inl KeyError, empty_session)"
  by (simp add: route_quiz_def route_results_def route_submit_def login_required_def
      show_question_def show_results_def submit_answer_def empty_session_def)

text \<open>
  C9. Without an authenticated user, \<^verbatim>\<open>GET /results\<close> redirects to the login view, while
  \<^verbatim>\<open>GET /quiz\<close> serves the current question and \<^verbatim>\<open>POST /submit\<close> records the answer; on an
  empty session they redirect to the category list and raise KeyError. Neither redirects
  to the login view.
\<close>

theorem quiz_routes_not_guarded:
  "route_results False 1000 sample_started = (Inr (Redirect ''login''), sample_started) \<and>
   route_quiz False sample_started = (Inr (Quiz_page q1 1 2), sample_started) \<and>
   fst (route_submit False (Some ''B'') sample_started) = Inr (Redirect ''show_question'') \<and>
   current_index (snd (route_submit False (Some ''B'') sample_started)) = Some 1 \<and>
   route_quiz False empty_session = (Inr (Redirect ''index''), empty_session) \<and>
   route_submit False (Some ''B'') empty_session = (Inl KeyError, empty_session)"
  by (simp add: route_quiz_def route_results_def route_submit_def login_required_def
      show_question_def submit_answer_def py_index_def sample_started_def empty_session_def)

text \<open>
  C10. When the quiz is complete, that is \<open>current_index\<close> equals the length of the stored
  question list, \<^verbatim>\<open>submit_answer\<close> raises IndexError at
  \<^verbatim>\<open>session['questions'][current_index]\<close> and leaves the session as it was: no answer is
  appended and nothing is redirected.
\<close>

theorem submit_after_completion_raises:
  assumes "current_index s = Some ci"
    and "questions s = Some qs"
    and "ci = int (length qs)"
  shows "submit_answer ua s = (Inl IndexError, s)"
  using assms by (simp add: submit_answer_def py_index_def)

theorem submit_after_completion_raises_witness:
  "current_index sample_completed = Some 2 \<and> questions sample_completed = Some [q1, q2] \<and>
   (2::int) = int (length [q1, q2]) \<and>
   total_questions sample_completed = Some 2 \<and>
   submit_answer (Some ''A'') sample_completed = (Inl IndexError, sample_completed)"
proof -
  have c: "current_index sample_completed = Some 2"
    by (simp add: sample_completed_def sample_started_def)
  have q: "questions sample_completed = Some [q1, q2]"
    by (simp add: sample_completed_def sample_started_def)
  have l: "(2::int) = int (length [q1, q2])" by simp
  have t: "total_questions sample_completed = Some 2"
    by (simp add: sample_completed_def sample_started_def)
  show ?thesis
    using submit_after_completion_raises [OF c q l, of "Some ''A''"] c q t by simp
qed

end
